theory Spec2Isabelle
  imports Main "HOL-Library.Finite_Map"
begin

section \<open>Data model\<close>

text \<open>
  The shipper decodes every line of an archive member with \<^verbatim>\<open>json.loads\<close> and mutates the
  decoded value in place. A decoded value is a JSON tree. Objects are Python dictionaries; the
  normalisation never depends on the insertion order of a dictionary, so an object is a finite
  map from keys to values. Numbers are only ever copied, never computed with, so the carrier
  of numbers is a type parameter.
\<close>

datatype 'n json =
    JNull
  | JBool bool
  | JNum 'n
  | JStr string
  | JArr "'n json list"
  | JObj "(string, 'n json) fmap"

type_synonym 'n dict = "(string, 'n json) fmap"

text \<open>The exceptions that the script can raise while it processes a member.\<close>

datatype error =
    KeyError string
  | TypeError
  | JSONDecodeError
  | NameError string

definition ebind :: "error + 'a \<Rightarrow> ('a \<Rightarrow> error + 'b) \<Rightarrow> error + 'b" where
  "ebind m f = (case m of Inl e \<Rightarrow> Inl e | Inr x \<Rightarrow> f x)"

section \<open>Python primitives on decoded values\<close>

text \<open>\<^verbatim>\<open>d[k]\<close> on a dictionary: raises \<^verbatim>\<open>KeyError\<close> when the key is absent.\<close>

definition getitem :: "'n dict \<Rightarrow> string \<Rightarrow> error + 'n json" where
  "getitem d k = (case fmlookup d k of None \<Rightarrow> Inl (KeyError k) | Some v \<Rightarrow> Inr v)"

text \<open>
  \<^verbatim>\<open>v[k]\<close> with a string key on an arbitrary decoded value: only a dictionary can be
  subscripted with a string; lists, strings, numbers, booleans and \<^verbatim>\<open>None\<close> raise
  \<^verbatim>\<open>TypeError\<close>.
\<close>

definition subscript :: "'n json \<Rightarrow> string \<Rightarrow> error + 'n json" where
  "subscript v k = (case v of JObj d \<Rightarrow> getitem d k | _ \<Rightarrow> Inl TypeError)"

text \<open>\<^verbatim>\<open>v[k] = x\<close> with a string key on an arbitrary decoded value.\<close>

definition setitem :: "'n json \<Rightarrow> string \<Rightarrow> 'n json \<Rightarrow> error + 'n json" where
  "setitem v k x = (case v of JObj d \<Rightarrow> Inr (JObj (fmupd k x d)) | _ \<Rightarrow> Inl TypeError)"

text \<open>
  \<^verbatim>\<open>source["winlog"][k] = x\<close>, the value \<open>x\<close> being already evaluated: look up
  \<^verbatim>\<open>source["winlog"]\<close>, store into it. The dictionary stored under \<^verbatim>\<open>winlog\<close> is mutated in
  place, which the model renders by storing the updated dictionary back.
\<close>

definition set_winlog :: "'n dict \<Rightarrow> string \<Rightarrow> 'n json \<Rightarrow> error + 'n dict" where
  "set_winlog source k x =
     ebind (getitem source ''winlog'') (\<lambda>w.
     ebind (setitem w k x) (\<lambda>w'.
     Inr (fmupd ''winlog'' w' source)))"

section \<open>The normalisation rules of \<^verbatim>\<open>generate_actions\<close>\<close>

text \<open>The value stored under \<^verbatim>\<open>log\<close> (line 90).\<close>

definition log_label :: "string \<Rightarrow> 'n json" where
  "log_label logfile =
     JObj (fmupd ''file'' (JObj (fmupd ''name'' (JStr logfile) fmempty)) fmempty)"

text \<open>
  Lines 90 and 91: \<^verbatim>\<open>source["log"] = {...}\<close> and \<^verbatim>\<open>source.setdefault("winlog", dict())\<close>.
  The item assignment raises \<^verbatim>\<open>TypeError\<close> when the decoded line is not an object.
\<close>

definition setdefault :: "'n dict \<Rightarrow> string \<Rightarrow> 'n json \<Rightarrow> 'n dict" where
  "setdefault d k v = (case fmlookup d k of None \<Rightarrow> fmupd k v d | Some _ \<Rightarrow> d)"

definition init_source :: "string \<Rightarrow> 'n json \<Rightarrow> error + 'n dict" where
  "init_source logfile src =
     (case src of
        JObj d \<Rightarrow> Inr (setdefault (fmupd ''log'' (log_label logfile) d) ''winlog'' (JObj fmempty))
      | _ \<Rightarrow> Inl TypeError)"

text \<open>
  \<^verbatim>\<open>if k in source: source["winlog"][dst] = source[k]; del source[k]\<close>
  (lines 134 to 136, 138 to 140 and 148 to 150).
\<close>

definition move_if_present :: "string \<Rightarrow> string \<Rightarrow> 'n dict \<Rightarrow> error + 'n dict" where
  "move_if_present k dst source =
     (case fmlookup source k of
        None \<Rightarrow> Inr source
      | Some v \<Rightarrow> ebind (set_winlog source dst v) (\<lambda>s. Inr (fmdrop k s)))"

text \<open>
  \<^verbatim>\<open>try: source["winlog"][dst] = source[k]; del source[k] except KeyError: pass\<close>
  (lines 120 to 124 and 127 to 131). The right-hand side is evaluated first; a
  \<^verbatim>\<open>KeyError\<close> is swallowed, any other exception propagates.
\<close>

definition move_try :: "string \<Rightarrow> string \<Rightarrow> 'n dict \<Rightarrow> error + 'n dict" where
  "move_try k dst source =
     (case ebind (getitem source k) (\<lambda>v. set_winlog source dst v) of
        Inl (KeyError _) \<Rightarrow> Inr source
      | Inl e \<Rightarrow> Inl e
      | Inr s \<Rightarrow> Inr (fmdrop k s))"

text \<open>The keys that line 114 keeps at top level.\<close>

definition reserved :: "string set" where
  "reserved = {''winlog'', ''log'', ''Channel'', ''Hostname'', ''@timestamp'', ''@version''}"

text \<open>The dictionary comprehension of lines 111 to 115.\<close>

definition event_data_of :: "'n dict \<Rightarrow> 'n dict" where
  "event_data_of source = fmfilter (\<lambda>k. k \<notin> reserved) source"

text \<open>
  Lines 94 to 131, the branch for records written by nxlog. Deleting \<^verbatim>\<open>type\<close> and
  \<^verbatim>\<open>host\<close> swallows the \<^verbatim>\<open>KeyError\<close> of an absent key; the loop of lines 116 and 117 deletes
  every key of the comprehension from the top level.
\<close>

definition move_nxlog :: "'n dict \<Rightarrow> error + 'n dict" where
  "move_nxlog source =
     (case fmlookup source ''EventID'' of
        None \<Rightarrow> Inr source
      | Some eid \<Rightarrow>
          ebind (set_winlog source ''event_id'' eid) (\<lambda>s1.
          let s2 = fmdrop ''EventID'' s1;
              s3 = fmdrop ''type'' s2;
              s4 = fmdrop ''host'' s3;
              ed = event_data_of s4
          in ebind (set_winlog s4 ''event_data'' (JObj ed)) (\<lambda>s5.
             let s6 = fmdrop_fset (fmdom ed) s5
             in ebind (move_try ''Hostname'' ''computer_name'' s6) (\<lambda>s7.
                move_try ''Channel'' ''channel'' s7))))"

text \<open>
  Lines 142 to 146: the lower-case channel name is rewritten; the \<^verbatim>\<open>KeyError\<close> of a
  missing \<^verbatim>\<open>channel\<close> is swallowed.
\<close>

definition fix_channel :: "'n dict \<Rightarrow> error + 'n dict" where
  "fix_channel source =
     (case ebind (getitem source ''winlog'') (\<lambda>w. subscript w ''channel'') of
        Inl (KeyError _) \<Rightarrow> Inr source
      | Inl e \<Rightarrow> Inl e
      | Inr c \<Rightarrow>
          if c = JStr ''security''
          then (case set_winlog source ''channel'' (JStr ''Security'') of
                  Inl (KeyError _) \<Rightarrow> Inr source
                | Inl e \<Rightarrow> Inl e
                | Inr s \<Rightarrow> Inr s)
          else Inr source)"

text \<open>
  Line 152: \<^verbatim>\<open>source.setdefault("event", dict())["code"] = source["winlog"]["event_id"]\<close>.
  Python evaluates the right-hand side first, so a missing \<^verbatim>\<open>event_id\<close> raises
  \<^verbatim>\<open>KeyError\<close> before \<^verbatim>\<open>event\<close> is touched.
\<close>

definition set_event_code :: "'n dict \<Rightarrow> error + 'n dict" where
  "set_event_code source =
     ebind (getitem source ''winlog'') (\<lambda>w.
     ebind (subscript w ''event_id'') (\<lambda>eid.
     let s = setdefault source ''event'' (JObj fmempty)
     in ebind (getitem s ''event'') (\<lambda>ev.
        ebind (setitem ev ''code'' eid) (\<lambda>ev'.
        Inr (fmupd ''event'' ev' s)))))"

text \<open>
  The relocation rules, lines 90 to 140: everything before the channel name is
  corrected.
\<close>

definition relocate :: "string \<Rightarrow> 'n json \<Rightarrow> error + 'n dict" where
  "relocate logfile src =
     ebind (init_source logfile src) (\<lambda>s.
     ebind (move_nxlog s) (\<lambda>s.
     ebind (move_if_present ''event_data'' ''event_data'' s) (\<lambda>s.
     move_if_present ''log_name'' ''channel'' s)))"

text \<open>
  The body of the loop of \<^verbatim>\<open>generate_actions\<close> between the decoding of the line and the
  update of the progress bar (lines 90 to 152).
\<close>

definition normalize :: "string \<Rightarrow> 'n json \<Rightarrow> error + 'n json" where
  "normalize logfile src =
     ebind (relocate logfile src) (\<lambda>s.
     ebind (fix_channel s) (\<lambda>s.
     ebind (move_if_present ''event_id'' ''event_id'' s) (\<lambda>s.
     ebind (set_event_code s) (\<lambda>s.
     Inr (JObj s)))))"

text \<open>
  Reading a field one level down, as in \<^verbatim>\<open>record["winlog"]["event_id"]\<close>, for stating
  properties of a record: \<open>None\<close> when either key is missing or the outer value is not an
  object.
\<close>

definition nested :: "'n dict \<Rightarrow> string \<Rightarrow> string \<Rightarrow> 'n json option" where
  "nested d a b = (case fmlookup d a of Some (JObj w) \<Rightarrow> fmlookup w b | _ \<Rightarrow> None)"

section \<open>The shipping loop\<close>





text \<open>
  \<^verbatim>\<open>for line in f\<close> on the binary file object of a member: the content is cut after every
  newline byte, the newline stays with its line, and a last line without newline is yielded
  as it is.
\<close>

fun file_lines :: "string \<Rightarrow> string list" where
  "file_lines [] = []"
| "file_lines (c # cs) =
     (if c = CHR 0x0A then [c] # file_lines cs
      else (case file_lines cs of [] \<Rightarrow> [[c]] | l # ls \<Rightarrow> (c # l) # ls))"

datatype output_kind = Elasticsearch | Logstash

datatype color = Red | Green

text \<open>
  What the script takes from its arguments and from the libraries it calls: the selected
  output, the index name, \<^verbatim>\<open>json.loads\<close> (\<open>None\<close> when it raises), the status code of the
  response to \<^verbatim>\<open>requests.post\<close> for an event, and whether the bulk helper gets a document
  indexed.
\<close>

record 'n config =
  args_output :: output_kind
  args_index :: string
  loads :: "string \<Rightarrow> 'n json option"
  post_status :: "'n json \<Rightarrow> nat"
  es_accepts :: "'n json \<Rightarrow> bool"

text \<open>
  The variables of the loop: the value of the progress bar, the run-wide and per-member
  counters, the colour (unbound until first assigned) and the summary lines printed so far.
\<close>

record state =
  progress :: nat
  total_success :: nat
  total_failed :: nat
  success_count :: nat
  fail_count :: nat
  color :: "color option"
  printed :: "(nat \<times> nat \<times> color) list"


text \<open>Lines 89 to 152 for one line: decode, then normalise.\<close>

definition source_of_line :: "'n config \<Rightarrow> string \<Rightarrow> string \<Rightarrow> error + 'n json" where
  "source_of_line cfg logfile line =
     (case loads cfg line of None \<Rightarrow> Inl JSONDecodeError | Some source \<Rightarrow> normalize logfile source)"

text \<open>Lines 155 to 161: what the generator yields for a normalised record.\<close>

definition action :: "'n config \<Rightarrow> 'n json \<Rightarrow> 'n json" where
  "action cfg source =
     (case args_output cfg of
        Elasticsearch \<Rightarrow>
          JObj (fmupd ''_index'' (JStr (args_index cfg)) (fmupd ''_source'' source fmempty))
      | Logstash \<Rightarrow> source)"

text \<open>
  The generator \<^verbatim>\<open>generate_actions\<close> run to its end, as the bulk helper does: the actions
  yielded, the value of the progress bar, and the exception that ended it, if any. The
  progress bar is advanced by the length of a line after the line has been normalised.
\<close>

fun generate_actions ::
  "'n config \<Rightarrow> string \<Rightarrow> string list \<Rightarrow> nat \<Rightarrow> 'n json list \<times> nat \<times> error option" where
  "generate_actions cfg logfile [] p = ([], p, None)"
| "generate_actions cfg logfile (line # rest) p =
     (case source_of_line cfg logfile line of
        Inl e \<Rightarrow> ([], p, Some e)
      | Inr source \<Rightarrow>
          (case generate_actions cfg logfile rest (p + length line) of
             (acts, p', r) \<Rightarrow> (action cfg source # acts, p', r)))"


text \<open>Lines 174 to 182: one event is posted and counted.\<close>

definition logstash_send :: "'n config \<Rightarrow> 'n json \<Rightarrow> state \<Rightarrow> state" where
  "logstash_send cfg event st =
     (if post_status cfg event = 200
      then st\<lparr>success_count := success_count st + 1, total_success := total_success st + 1,
              color := Some Green\<rparr>
      else st\<lparr>fail_count := fail_count st + 1, total_failed := total_failed st + 1,
              color := Some Red\<rparr>)"

text \<open>
  Lines 173 to 182: the \<^verbatim>\<open>for\<close> loop pulls one event at a time from the generator, so
  decoding, progress and posting alternate. An exception of the generator leaves the loop
  with the state reached so far.
\<close>

fun logstash_loop ::
  "'n config \<Rightarrow> string \<Rightarrow> string list \<Rightarrow> state \<Rightarrow> (error \<times> state) + state" where
  "logstash_loop cfg logfile [] st = Inr st"
| "logstash_loop cfg logfile (line # rest) st =
     (case source_of_line cfg logfile line of
        Inl e \<Rightarrow> Inl (e, st)
      | Inr source \<Rightarrow>
          logstash_loop cfg logfile rest
            (logstash_send cfg (action cfg source) (st\<lparr>progress := progress st + length line\<rparr>)))"

text \<open>Line 183: the summary of a member; \<^verbatim>\<open>color\<close> must be bound.\<close>

definition print_summary :: "state \<Rightarrow> (error \<times> state) + state" where
  "print_summary st =
     (case color st of
        None \<Rightarrow> Inl (NameError ''color'', st)
      | Some c \<Rightarrow> Inr (st\<lparr>printed := printed st @ [(success_count st, fail_count st, c)]\<rparr>))"





text \<open>
  The state in which the loop was left, whether it ended normally or with an exception.
\<close>

definition state_of :: "(error \<times> state) + state \<Rightarrow> state" where
  "state_of res = (case res of Inl (e, st) \<Rightarrow> st | Inr st \<Rightarrow> st)"

section \<open>Example records\<close>

text \<open>The nxlog record of the field relocation example and the record expected for it.\<close>

definition raw_nxlog :: "int json" where
  "raw_nxlog = JObj (fmupd ''EventID'' (JNum 7) (fmupd ''Foo'' (JStr ''bar'')
     (fmupd ''Hostname'' (JStr ''H1'') (fmupd ''Channel'' (JStr ''Security'')
     (fmupd ''@timestamp'' (JStr ''t'') fmempty)))))"

definition canonical_nxlog :: "string \<Rightarrow> int json" where
  "canonical_nxlog L = JObj
     (fmupd ''winlog'' (JObj (fmupd ''event_id'' (JNum 7)
         (fmupd ''event_data'' (JObj (fmupd ''Foo'' (JStr ''bar'') fmempty))
         (fmupd ''computer_name'' (JStr ''H1'')
         (fmupd ''channel'' (JStr ''Security'') fmempty)))))
     (fmupd ''event'' (JObj (fmupd ''code'' (JNum 7) fmempty))
     (fmupd ''@timestamp'' (JStr ''t'')
     (fmupd ''log'' (JObj (fmupd ''file'' (JObj (fmupd ''name'' (JStr L) fmempty)) fmempty))
      fmempty))))"

text \<open>
  A field one level down in the result of a normalisation; \<open>None\<close> when the normalisation
  raised.
\<close>

definition normalized_field :: "error + 'n json \<Rightarrow> string \<Rightarrow> string \<Rightarrow> 'n json option" where
  "normalized_field res a b = (case res of Inr (JObj s) \<Rightarrow> nested s a b | _ \<Rightarrow> None)"

text \<open>A record that carries the event id both in the nxlog place and in the old Winlogbeat place.\<close>

definition raw_both :: "int json" where
  "raw_both = JObj (fmupd ''EventID'' (JNum 42) (fmupd ''event_id'' (JNum 99) fmempty))"

text \<open>A record of an old Winlogbeat, with the channel in lower case under \<^verbatim>\<open>log_name\<close>.\<close>

definition raw_winlogbeat :: "int dict" where
  "raw_winlogbeat = fmupd ''event_id'' (JNum 5) (fmupd ''log_name'' (JStr ''security'') fmempty)"

definition relocated_winlogbeat :: "string \<Rightarrow> int dict" where
  "relocated_winlogbeat L =
     fmupd ''winlog'' (JObj (fmupd ''channel'' (JStr ''security'') fmempty))
       (fmupd ''log'' (log_label L) (fmupd ''event_id'' (JNum 5) fmempty))"

text \<open>An nxlog record that already carries a \<^verbatim>\<open>log\<close> field.\<close>

definition raw_with_log :: "int dict" where
  "raw_with_log = fmupd ''EventID'' (JNum 7)
     (fmupd ''log'' (JObj (fmupd ''offset'' (JNum 3) fmempty)) fmempty)"

text \<open>A record without any event id.\<close>

definition raw_no_id :: "int dict" where
  "raw_no_id = fmupd ''message'' (JStr ''x'') fmempty"

section \<open>Example archives\<close>











section \<open>Basic facts about the primitives\<close>

lemma ebind_Inl [simp]: "ebind (Inl e) f = Inl e"
  by (simp add: ebind_def)

lemma ebind_Inr [simp]: "ebind (Inr x) f = f x"
  by (simp add: ebind_def)

lemma ebind_eq_Inr: "ebind m f = Inr y \<longleftrightarrow> (\<exists>x. m = Inr x \<and> f x = Inr y)"
  by (cases m) simp_all

lemma fmupd_same: "fmlookup m k = Some v \<Longrightarrow> fmupd k v m = m"
  by (rule fmap_ext) auto

lemma fmdrop_absent: "fmlookup m k = None \<Longrightarrow> fmdrop k m = m"
  by (rule fmap_ext) simp

lemmas norm_defs = normalize_def relocate_def init_source_def move_nxlog_def
  move_if_present_def move_try_def fix_channel_def set_event_code_def set_winlog_def
  getitem_def subscript_def setitem_def setdefault_def event_data_of_def reserved_def
  log_label_def

section \<open>The normalisation steps on a record whose \<^verbatim>\<open>winlog\<close> is a dictionary\<close>

lemma set_winlog_dict:
  "fmlookup s ''winlog'' = Some (JObj w) \<Longrightarrow>
   set_winlog s k x = Inr (fmupd ''winlog'' (JObj (fmupd k x w)) s)"
  by (simp add: set_winlog_def getitem_def setitem_def)

lemma set_winlog_Inr:
  "set_winlog s k x = Inr s' \<Longrightarrow>
   \<exists>w. fmlookup s ''winlog'' = Some (JObj w) \<and> s' = fmupd ''winlog'' (JObj (fmupd k x w)) s"
  by (auto simp: set_winlog_def getitem_def setitem_def split: option.splits json.splits)

lemma set_winlog_not_dict:
  "fmlookup s ''winlog'' = Some v \<Longrightarrow> \<forall>w. v \<noteq> JObj w \<Longrightarrow> set_winlog s k x = Inl TypeError"
  by (cases v) (simp_all add: set_winlog_def getitem_def setitem_def)

lemma move_if_present_dict:
  "fmlookup s ''winlog'' = Some (JObj w) \<Longrightarrow>
   move_if_present k dst s =
     Inr (case fmlookup s k of None \<Rightarrow> s
          | Some v \<Rightarrow> fmdrop k (fmupd ''winlog'' (JObj (fmupd dst v w)) s))"
  by (simp add: move_if_present_def set_winlog_dict split: option.splits)

lemma move_try_dict:
  "fmlookup s ''winlog'' = Some (JObj w) \<Longrightarrow>
   move_try k dst s =
     Inr (case fmlookup s k of None \<Rightarrow> s
          | Some v \<Rightarrow> fmdrop k (fmupd ''winlog'' (JObj (fmupd dst v w)) s))"
  by (simp add: move_try_def getitem_def set_winlog_dict split: option.splits)

lemma fix_channel_dict:
  "fmlookup s ''winlog'' = Some (JObj w) \<Longrightarrow>
   fix_channel s =
     Inr (if fmlookup w ''channel'' = Some (JStr ''security'')
          then fmupd ''winlog'' (JObj (fmupd ''channel'' (JStr ''Security'') w)) s else s)"
  by (auto simp: fix_channel_def getitem_def subscript_def set_winlog_dict split: option.splits)

lemma fix_channel_not_dict:
  "fmlookup s ''winlog'' = Some v \<Longrightarrow> \<forall>w. v \<noteq> JObj w \<Longrightarrow> fix_channel s = Inl TypeError"
  by (cases v) (simp_all add: fix_channel_def getitem_def subscript_def)

lemma set_event_code_dict:
  "fmlookup s ''winlog'' = Some (JObj w) \<Longrightarrow>
   set_event_code s =
     (case fmlookup w ''event_id'' of
        None \<Rightarrow> Inl (KeyError ''event_id'')
      | Some eid \<Rightarrow>
          (case fmlookup s ''event'' of
             None \<Rightarrow> Inr (fmupd ''event'' (JObj (fmupd ''code'' eid fmempty)) s)
           | Some (JObj e) \<Rightarrow> Inr (fmupd ''event'' (JObj (fmupd ''code'' eid e)) s)
           | Some _ \<Rightarrow> Inl TypeError))"
  by (simp add: set_event_code_def getitem_def subscript_def setitem_def setdefault_def Let_def
      split: option.splits json.splits)

lemma reserved_iff:
  "k \<in> reserved \<longleftrightarrow> k = ''winlog'' \<or> k = ''log'' \<or> k = ''Channel'' \<or> k = ''Hostname''
     \<or> k = ''@timestamp'' \<or> k = ''@version''"
  by (auto simp: reserved_def)

lemma drop_event_data:
  "fmdrop_fset (fmdom (event_data_of s)) (fmupd ''winlog'' x s) =
   fmupd ''winlog'' x (fmfilter (\<lambda>k. k \<in> reserved) s)"
  by (rule fmap_ext) (auto simp: event_data_of_def reserved_iff fmlookup_dom_iff)

section \<open>The nxlog branch in closed form\<close>

lemma event_data_of_upd_winlog [simp]:
  "event_data_of (fmupd ''winlog'' x m) = event_data_of m"
  by (rule fmap_ext) (simp add: event_data_of_def reserved_iff)

lemma move_try_None:
  "fmlookup s ''winlog'' = Some (JObj w) \<Longrightarrow> fmlookup s k = None \<Longrightarrow> move_try k dst s = Inr s"
  by (simp add: move_try_dict)

lemma move_try_Some:
  "fmlookup s ''winlog'' = Some (JObj w) \<Longrightarrow> fmlookup s k = Some v \<Longrightarrow>
   move_try k dst s = Inr (fmdrop k (fmupd ''winlog'' (JObj (fmupd dst v w)) s))"
  by (simp add: move_try_dict)

lemma move_nxlog_absent:
  "fmlookup s ''EventID'' = None \<Longrightarrow> move_nxlog s = Inr s"
  by (simp add: move_nxlog_def)

lemma move_nxlog_dict:
  assumes "fmlookup s ''winlog'' = Some (JObj w)" and "fmlookup s ''EventID'' = Some eid"
  shows "move_nxlog s = Inr
    (let s4 = fmdrop ''host'' (fmdrop ''type'' (fmdrop ''EventID'' s));
         w2 = fmupd ''event_data'' (JObj (event_data_of s4)) (fmupd ''event_id'' eid w);
         w3 = (case fmlookup s ''Hostname'' of None \<Rightarrow> w2 | Some h \<Rightarrow> fmupd ''computer_name'' h w2);
         w4 = (case fmlookup s ''Channel'' of None \<Rightarrow> w3 | Some c \<Rightarrow> fmupd ''channel'' c w3)
     in fmupd ''winlog'' (JObj w4)
          (fmfilter (\<lambda>k. k = ''log'' \<or> k = ''@timestamp'' \<or> k = ''@version'') s))"
proof -
  let ?s4 = "fmdrop ''host'' (fmdrop ''type'' (fmdrop ''EventID'' s))"
  let ?w1 = "fmupd ''event_id'' eid w"
  let ?w2 = "fmupd ''event_data'' (JObj (event_data_of ?s4)) ?w1"
  have s1: "set_winlog s ''event_id'' eid = Inr (fmupd ''winlog'' (JObj ?w1) s)"
    using assms(1) by (rule set_winlog_dict)
  have s4: "fmdrop ''host'' (fmdrop ''type'' (fmdrop ''EventID'' (fmupd ''winlog'' (JObj ?w1) s)))
      = fmupd ''winlog'' (JObj ?w1) ?s4"
    by (simp add: fmdrop_fmupd)
  have s5: "set_winlog (fmupd ''winlog'' (JObj ?w1) ?s4) ''event_data'' (JObj (event_data_of ?s4))
      = Inr (fmupd ''winlog'' (JObj ?w2) ?s4)"
    by (simp add: set_winlog_dict)
  have s6: "fmdrop_fset (fmdom (event_data_of ?s4)) (fmupd ''winlog'' (JObj ?w2) ?s4)
      = fmupd ''winlog'' (JObj ?w2) (fmfilter (\<lambda>k. k \<in> reserved) ?s4)"
    by (rule drop_event_data)
  let ?s6 = "fmupd ''winlog'' (JObj ?w2) (fmfilter (\<lambda>k. k \<in> reserved) ?s4)"
  have w6: "fmlookup ?s6 ''winlog'' = Some (JObj ?w2)"
    by simp
  have h6: "fmlookup ?s6 ''Hostname'' = fmlookup s ''Hostname''"
    by (simp add: reserved_iff)
  have c6: "fmlookup ?s6 ''Channel'' = fmlookup s ''Channel''"
    by (simp add: reserved_iff)
  have pre: "move_nxlog s =
      ebind (move_try ''Hostname'' ''computer_name'' ?s6) (move_try ''Channel'' ''channel'')"
    using assms(2) by (simp add: move_nxlog_def s1 Let_def s4 s5 s6 cong del: fmfilter_cong)
  show ?thesis
  proof (cases "fmlookup s ''Hostname''")
    case hn: None
    have s7: "move_try ''Hostname'' ''computer_name'' ?s6 = Inr ?s6"
      by (rule move_try_None [OF w6 trans [OF h6 hn]])
    show ?thesis
    proof (cases "fmlookup s ''Channel''")
      case cn: None
      have s8: "move_try ''Channel'' ''channel'' ?s6 = Inr ?s6"
        by (rule move_try_None [OF w6 trans [OF c6 cn]])
      have fin: "?s6 = fmupd ''winlog'' (JObj ?w2)
          (fmfilter (\<lambda>k. k = ''log'' \<or> k = ''@timestamp'' \<or> k = ''@version'') s)"
        using hn cn by (intro fmap_ext) (auto simp: reserved_iff)
      have "move_nxlog s = Inr ?s6"
        by (simp only: pre s7 s8 ebind_Inr)
      then show ?thesis
        using hn cn by (simp only: fin Let_def option.case)
    next
      case cs: (Some c)
      let ?s8 = "fmdrop ''Channel'' (fmupd ''winlog'' (JObj (fmupd ''channel'' c ?w2)) ?s6)"
      have s8: "move_try ''Channel'' ''channel'' ?s6 = Inr ?s8"
        by (rule move_try_Some [OF w6 trans [OF c6 cs]])
      have fin: "?s8 = fmupd ''winlog'' (JObj (fmupd ''channel'' c ?w2))
          (fmfilter (\<lambda>k. k = ''log'' \<or> k = ''@timestamp'' \<or> k = ''@version'') s)"
        using hn cs by (intro fmap_ext) (auto simp: reserved_iff)
      have "move_nxlog s = Inr ?s8"
        by (simp only: pre s7 s8 ebind_Inr)
      then show ?thesis
        using hn cs by (simp only: fin Let_def option.case)
    qed
  next
    case hs: (Some h)
    let ?w3 = "fmupd ''computer_name'' h ?w2"
    let ?s7 = "fmdrop ''Hostname'' (fmupd ''winlog'' (JObj ?w3) ?s6)"
    have s7: "move_try ''Hostname'' ''computer_name'' ?s6 = Inr ?s7"
      by (rule move_try_Some [OF w6 trans [OF h6 hs]])
    have w7: "fmlookup ?s7 ''winlog'' = Some (JObj ?w3)"
      by simp
    have c7: "fmlookup ?s7 ''Channel'' = fmlookup s ''Channel''"
      by (simp add: reserved_iff)
    show ?thesis
    proof (cases "fmlookup s ''Channel''")
      case cn: None
      have s8: "move_try ''Channel'' ''channel'' ?s7 = Inr ?s7"
        by (rule move_try_None [OF w7 trans [OF c7 cn]])
      have fin: "?s7 = fmupd ''winlog'' (JObj ?w3)
          (fmfilter (\<lambda>k. k = ''log'' \<or> k = ''@timestamp'' \<or> k = ''@version'') s)"
        using hs cn by (intro fmap_ext) (auto simp: reserved_iff)
      have "move_nxlog s = Inr ?s7"
        by (simp only: pre s7 s8 ebind_Inr)
      then show ?thesis
        using hs cn by (simp only: fin Let_def option.case)
    next
      case cs: (Some c)
      let ?s8 = "fmdrop ''Channel'' (fmupd ''winlog'' (JObj (fmupd ''channel'' c ?w3)) ?s7)"
      have s8: "move_try ''Channel'' ''channel'' ?s7 = Inr ?s8"
        by (rule move_try_Some [OF w7 trans [OF c7 cs]])
      have fin: "?s8 = fmupd ''winlog'' (JObj (fmupd ''channel'' c ?w3))
          (fmfilter (\<lambda>k. k = ''log'' \<or> k = ''@timestamp'' \<or> k = ''@version'') s)"
        using hs cs by (intro fmap_ext) (auto simp: reserved_iff)
      have "move_nxlog s = Inr ?s8"
        by (simp only: pre s7 s8 ebind_Inr)
      then show ?thesis
        using hs cs by (simp only: fin Let_def option.case)
    qed
  qed
qed

section \<open>What each rule does to the record\<close>

lemma move_if_present_W:
  assumes W: "fmlookup s ''winlog'' = Some (JObj w)" and k: "k \<noteq> ''winlog''"
  obtains s' w' where
    "move_if_present k dst s = Inr s'"
    "fmlookup s' ''winlog'' = Some (JObj w')"
    "\<And>f. f \<noteq> dst \<Longrightarrow> fmlookup w' f = fmlookup w f"
    "fmlookup w' dst = (case fmlookup s k of None \<Rightarrow> fmlookup w dst | Some v \<Rightarrow> Some v)"
    "fmlookup s' k = None"
    "\<And>k'. k' \<noteq> k \<Longrightarrow> k' \<noteq> ''winlog'' \<Longrightarrow> fmlookup s' k' = fmlookup s k'"
proof (cases "fmlookup s k")
  case None
  show ?thesis
  proof (rule that [of s w])
    show "move_if_present k dst s = Inr s"
      using None by (simp add: move_if_present_dict [OF W])
  qed (use None W in simp_all)
next
  case (Some v)
  show ?thesis
  proof (rule that [of "fmdrop k (fmupd ''winlog'' (JObj (fmupd dst v w)) s)" "fmupd dst v w"])
    show "move_if_present k dst s = Inr (fmdrop k (fmupd ''winlog'' (JObj (fmupd dst v w)) s))"
      using Some by (simp add: move_if_present_dict [OF W])
  qed (use Some k in simp_all)
qed

lemma fix_channel_W:
  assumes W: "fmlookup s ''winlog'' = Some (JObj w)"
  obtains s' w' where
    "fix_channel s = Inr s'"
    "fmlookup s' ''winlog'' = Some (JObj w')"
    "\<And>f. f \<noteq> ''channel'' \<Longrightarrow> fmlookup w' f = fmlookup w f"
    "fmlookup w' ''channel'' =
       (if fmlookup w ''channel'' = Some (JStr ''security'') then Some (JStr ''Security'')
        else fmlookup w ''channel'')"
    "\<And>k'. k' \<noteq> ''winlog'' \<Longrightarrow> fmlookup s' k' = fmlookup s k'"
proof (cases "fmlookup w ''channel'' = Some (JStr ''security'')")
  case True
  show ?thesis
  proof (rule that [of "fmupd ''winlog'' (JObj (fmupd ''channel'' (JStr ''Security'') w)) s"
        "fmupd ''channel'' (JStr ''Security'') w"])
    show "fix_channel s = Inr (fmupd ''winlog'' (JObj (fmupd ''channel'' (JStr ''Security'') w)) s)"
      using True by (simp add: fix_channel_dict [OF W])
  qed (use True in simp_all)
next
  case False
  show ?thesis
  proof (rule that [of s w])
    show "fix_channel s = Inr s"
      using False by (simp add: fix_channel_dict [OF W])
  qed (use False W in simp_all)
qed

lemma event_data_of_lookup:
  "fmlookup (event_data_of s) k = (if k \<in> reserved then None else fmlookup s k)"
  by (simp add: event_data_of_def)

lemma move_nxlog_W:
  assumes W: "fmlookup s ''winlog'' = Some (JObj w)" and E: "fmlookup s ''EventID'' = Some eid"
  obtains s' w' where
    "move_nxlog s = Inr s'"
    "fmlookup s' ''winlog'' = Some (JObj w')"
    "fmlookup w' ''event_id'' = Some eid"
    "fmlookup w' ''event_data'' =
       Some (JObj (event_data_of (fmdrop ''host'' (fmdrop ''type'' (fmdrop ''EventID'' s)))))"
    "fmlookup w' ''channel'' =
       (case fmlookup s ''Channel'' of None \<Rightarrow> fmlookup w ''channel'' | Some c \<Rightarrow> Some c)"
    "\<And>k'. k' \<noteq> ''winlog'' \<Longrightarrow>
       fmlookup s' k' =
         (if k' = ''log'' \<or> k' = ''@timestamp'' \<or> k' = ''@version'' then fmlookup s k' else None)"
proof -
  let ?s4 = "fmdrop ''host'' (fmdrop ''type'' (fmdrop ''EventID'' s))"
  let ?w2 = "fmupd ''event_data'' (JObj (event_data_of ?s4)) (fmupd ''event_id'' eid w)"
  let ?w3 = "case fmlookup s ''Hostname'' of None \<Rightarrow> ?w2 | Some h \<Rightarrow> fmupd ''computer_name'' h ?w2"
  let ?w4 = "case fmlookup s ''Channel'' of None \<Rightarrow> ?w3 | Some c \<Rightarrow> fmupd ''channel'' c ?w3"
  let ?s' = "fmupd ''winlog'' (JObj ?w4)
          (fmfilter (\<lambda>k. k = ''log'' \<or> k = ''@timestamp'' \<or> k = ''@version'') s)"
  show ?thesis
  proof (rule that [of ?s' ?w4])
    show "move_nxlog s = Inr ?s'"
      using move_nxlog_dict [OF W E] by (simp only: Let_def)
    show "fmlookup ?s' ''winlog'' = Some (JObj ?w4)"
      by simp
    show "fmlookup ?w4 ''event_id'' = Some eid"
      by (simp split: option.splits)
    show "fmlookup ?w4 ''event_data'' = Some (JObj (event_data_of ?s4))"
      by (simp split: option.splits)
    show "fmlookup ?w4 ''channel'' =
       (case fmlookup s ''Channel'' of None \<Rightarrow> fmlookup w ''channel'' | Some c \<Rightarrow> Some c)"
      by (simp split: option.splits)
    show "\<And>k'. k' \<noteq> ''winlog'' \<Longrightarrow>
       fmlookup ?s' k' =
         (if k' = ''log'' \<or> k' = ''@timestamp'' \<or> k' = ''@version'' then fmlookup s k' else None)"
      by simp
  qed
qed

lemma init_source_obj:
  "init_source L (JObj d) =
     Inr (case fmlookup d ''winlog'' of
            None \<Rightarrow> fmupd ''winlog'' (JObj fmempty) (fmupd ''log'' (log_label L) d)
          | Some _ \<Rightarrow> fmupd ''log'' (log_label L) d)"
  by (simp add: init_source_def setdefault_def split: option.splits)

lemma init_source_W:
  obtains s v where
    "init_source L (JObj d) = Inr s"
    "fmlookup s ''winlog'' = Some v"
    "v = (case fmlookup d ''winlog'' of None \<Rightarrow> JObj fmempty | Some x \<Rightarrow> x)"
    "fmlookup s ''log'' = Some (log_label L)"
    "\<And>k. k \<noteq> ''winlog'' \<Longrightarrow> k \<noteq> ''log'' \<Longrightarrow> fmlookup s k = fmlookup d k"
proof (cases "fmlookup d ''winlog''")
  case None
  show ?thesis
    by (rule that [of "fmupd ''winlog'' (JObj fmempty) (fmupd ''log'' (log_label L) d)" "JObj fmempty"])
      (use None in \<open>simp_all add: init_source_obj\<close>)
next
  case (Some x)
  show ?thesis
    by (rule that [of "fmupd ''log'' (log_label L) d" x])
      (use Some in \<open>simp_all add: init_source_obj\<close>)
qed

lemma init_source_not_obj: "\<forall>d. r \<noteq> JObj d \<Longrightarrow> init_source L r = Inl TypeError"
  by (cases r) (simp_all add: init_source_def)

text \<open>When \<^verbatim>\<open>winlog\<close> is not a dictionary, every rule up to the channel rule either raises
  or leaves the record alone, and the channel rule raises.\<close>

lemma move_if_present_not_dict:
  assumes "fmlookup s ''winlog'' = Some v" and "\<forall>w. v \<noteq> JObj w"
    and "move_if_present k dst s = Inr s'"
  shows "s' = s"
  using assms by (auto simp: move_if_present_def set_winlog_not_dict split: option.splits)

lemma move_nxlog_not_dict:
  assumes "fmlookup s ''winlog'' = Some v" and "\<forall>w. v \<noteq> JObj w"
    and "move_nxlog s = Inr s'"
  shows "s' = s"
  using assms by (auto simp: move_nxlog_def set_winlog_not_dict split: option.splits)

section \<open>The shape of a normalised record\<close>

lemma normalize_Inr_obj:
  assumes "normalize L r = Inr out"
  obtains d where "r = JObj d"
proof (cases "\<exists>d. r = JObj d")
  case True
  then show ?thesis using that by blast
next
  case False
  then have "init_source L r = Inl TypeError"
    by (intro init_source_not_obj) simp
  then have "normalize L r = Inl TypeError"
    by (simp add: normalize_def relocate_def)
  with assms show ?thesis by simp
qed

lemma normalize_Inr_winlog:
  assumes N: "normalize L (JObj d) = Inr out"
    and i: "init_source L (JObj d) = Inr s" and v: "fmlookup s ''winlog'' = Some v"
  obtains w where "v = JObj w"
proof (cases "\<exists>w. v = JObj w")
  case True
  then show ?thesis using that by blast
next
  case False
  then have nd: "\<forall>w. v \<noteq> JObj w" by simp
  from N i obtain s2 s3 s4 s5 where
    a: "move_nxlog s = Inr s2"
    and b: "move_if_present ''event_data'' ''event_data'' s2 = Inr s3"
    and c: "move_if_present ''log_name'' ''channel'' s3 = Inr s4"
    and f: "fix_channel s4 = Inr s5"
    by (auto simp: normalize_def relocate_def ebind_eq_Inr)
  have "s2 = s" by (rule move_nxlog_not_dict [OF v nd a])
  with b have "s3 = s" using move_if_present_not_dict [OF v nd] by blast
  with c have "s4 = s" using move_if_present_not_dict [OF v nd] by blast
  with f have "fix_channel s = Inr s5" by simp
  moreover have "fix_channel s = Inl TypeError" by (rule fix_channel_not_dict [OF v nd])
  ultimately show ?thesis by simp
qed

lemma event_data_of_init:
  assumes "\<And>k. k \<noteq> ''winlog'' \<Longrightarrow> k \<noteq> ''log'' \<Longrightarrow> fmlookup s k = fmlookup d k"
  shows "event_data_of (fmdrop ''host'' (fmdrop ''type'' (fmdrop ''EventID'' s))) =
         event_data_of (fmdrop ''host'' (fmdrop ''type'' (fmdrop ''EventID'' d)))"
  by (rule fmap_ext) (simp add: event_data_of_lookup reserved_iff assms)

lemma normalize_shape:
  assumes N: "normalize L r = Inr out"
  obtains d s4 w4 s7 w7 eid e where
    "r = JObj d"
    "relocate L r = Inr s4"
    "fmlookup s4 ''winlog'' = Some (JObj w4)"
    "out = JObj s7"
    "fmlookup s7 ''winlog'' = Some (JObj w7)"
    "fmlookup s7 ''log'' = Some (log_label L)"
    "fmlookup w7 ''event_id'' = Some eid"
    "fmlookup s7 ''event'' = Some (JObj e)"
    "fmlookup e ''code'' = Some eid"
    "fmlookup w7 ''channel'' =
       (if fmlookup w4 ''channel'' = Some (JStr ''security'') then Some (JStr ''Security'')
        else fmlookup w4 ''channel'')"
    "fmlookup s7 ''EventID'' = None"
    "fmlookup s7 ''event_data'' = None"
    "fmlookup s7 ''log_name'' = None"
    "fmlookup s7 ''event_id'' = None"
    "\<And>a. fmlookup d ''EventID'' = Some a \<Longrightarrow>
       eid = a \<and>
       fmlookup w7 ''event_data'' =
         Some (JObj (event_data_of (fmdrop ''host'' (fmdrop ''type'' (fmdrop ''EventID'' d)))))"
proof -
  from N obtain d where r: "r = JObj d" by (rule normalize_Inr_obj)
  let ?ED = "JObj (event_data_of (fmdrop ''host'' (fmdrop ''type'' (fmdrop ''EventID'' d))))"
  obtain s1 v where i: "init_source L (JObj d) = Inr s1"
    and v1: "fmlookup s1 ''winlog'' = Some v"
    and "v = (case fmlookup d ''winlog'' of None \<Rightarrow> JObj fmempty | Some x \<Rightarrow> x)"
    and l1: "fmlookup s1 ''log'' = Some (log_label L)"
    and k1: "\<And>k. k \<noteq> ''winlog'' \<Longrightarrow> k \<noteq> ''log'' \<Longrightarrow> fmlookup s1 k = fmlookup d k"
    by (rule init_source_W [of L d]) (rule that; assumption)
  from N r i v1 obtain w1 where "v = JObj w1"
    using normalize_Inr_winlog by blast
  with v1 have W1: "fmlookup s1 ''winlog'' = Some (JObj w1)" by simp
  have "\<exists>s2 w2. move_nxlog s1 = Inr s2 \<and> fmlookup s2 ''winlog'' = Some (JObj w2) \<and>
      fmlookup s2 ''log'' = Some (log_label L) \<and> fmlookup s2 ''EventID'' = None \<and>
      (\<forall>a. fmlookup d ''EventID'' = Some a \<longrightarrow>
        fmlookup s2 ''event_data'' = None \<and> fmlookup s2 ''log_name'' = None \<and>
        fmlookup s2 ''event_id'' = None \<and> fmlookup w2 ''event_id'' = Some a \<and>
        fmlookup w2 ''event_data'' = Some ?ED)"
  proof (cases "fmlookup d ''EventID''")
    case None
    then have "fmlookup s1 ''EventID'' = None" by (simp add: k1)
    then have "move_nxlog s1 = Inr s1" by (rule move_nxlog_absent)
    with W1 l1 None \<open>fmlookup s1 ''EventID'' = None\<close> show ?thesis by auto
  next
    case (Some a)
    then have E1: "fmlookup s1 ''EventID'' = Some a" by (simp add: k1)
    obtain s2 w2 where m: "move_nxlog s1 = Inr s2"
      and W2: "fmlookup s2 ''winlog'' = Some (JObj w2)"
      and e2: "fmlookup w2 ''event_id'' = Some a"
      and d2: "fmlookup w2 ''event_data'' =
         Some (JObj (event_data_of (fmdrop ''host'' (fmdrop ''type'' (fmdrop ''EventID'' s1)))))"
      and k2: "\<And>k'. k' \<noteq> ''winlog'' \<Longrightarrow>
         fmlookup s2 k' =
           (if k' = ''log'' \<or> k' = ''@timestamp'' \<or> k' = ''@version'' then fmlookup s1 k' else None)"
      by (rule move_nxlog_W [OF W1 E1]) (rule that; assumption)
    have "fmlookup w2 ''event_data'' = Some ?ED"
      using d2 event_data_of_init [of s1 d, OF k1] by simp
    moreover have "fmlookup s2 ''log'' = Some (log_label L)" by (simp add: k2 l1)
    moreover have "fmlookup s2 ''EventID'' = None" "fmlookup s2 ''event_data'' = None"
      "fmlookup s2 ''log_name'' = None" "fmlookup s2 ''event_id'' = None"
      by (simp_all add: k2)
    ultimately show ?thesis using m W2 e2 Some by auto
  qed
  then obtain s2 w2 where m2: "move_nxlog s1 = Inr s2"
    and W2: "fmlookup s2 ''winlog'' = Some (JObj w2)"
    and l2: "fmlookup s2 ''log'' = Some (log_label L)"
    and E2: "fmlookup s2 ''EventID'' = None"
    and nx: "\<And>a. fmlookup d ''EventID'' = Some a \<Longrightarrow>
        fmlookup s2 ''event_data'' = None \<and> fmlookup s2 ''log_name'' = None \<and>
        fmlookup s2 ''event_id'' = None \<and> fmlookup w2 ''event_id'' = Some a \<and>
        fmlookup w2 ''event_data'' = Some ?ED"
    by blast
  obtain s3 w3 where m3: "move_if_present ''event_data'' ''event_data'' s2 = Inr s3"
    and W3: "fmlookup s3 ''winlog'' = Some (JObj w3)"
    and f3: "\<And>f. f \<noteq> ''event_data'' \<Longrightarrow> fmlookup w3 f = fmlookup w2 f"
    and d3: "fmlookup w3 ''event_data'' =
        (case fmlookup s2 ''event_data'' of None \<Rightarrow> fmlookup w2 ''event_data'' | Some v \<Rightarrow> Some v)"
    and r3: "fmlookup s3 ''event_data'' = None"
    and k3: "\<And>k'. k' \<noteq> ''event_data'' \<Longrightarrow> k' \<noteq> ''winlog'' \<Longrightarrow> fmlookup s3 k' = fmlookup s2 k'"
    by (rule move_if_present_W [OF W2, of "''event_data''" "''event_data''"], simp) (rule that; assumption)
  obtain s4 w4 where m4: "move_if_present ''log_name'' ''channel'' s3 = Inr s4"
    and W4: "fmlookup s4 ''winlog'' = Some (JObj w4)"
    and f4: "\<And>f. f \<noteq> ''channel'' \<Longrightarrow> fmlookup w4 f = fmlookup w3 f"
    and r4: "fmlookup s4 ''log_name'' = None"
    and k4: "\<And>k'. k' \<noteq> ''log_name'' \<Longrightarrow> k' \<noteq> ''winlog'' \<Longrightarrow> fmlookup s4 k' = fmlookup s3 k'"
    by (rule move_if_present_W [OF W3, of "''log_name''" "''channel''"], simp) (rule that; assumption)
  have rel: "relocate L r = Inr s4"
    by (simp add: relocate_def r i m2 m3 m4)
  obtain s5 w5 where m5: "fix_channel s4 = Inr s5"
    and W5: "fmlookup s5 ''winlog'' = Some (JObj w5)"
    and f5: "\<And>f. f \<noteq> ''channel'' \<Longrightarrow> fmlookup w5 f = fmlookup w4 f"
    and c5: "fmlookup w5 ''channel'' =
       (if fmlookup w4 ''channel'' = Some (JStr ''security'') then Some (JStr ''Security'')
        else fmlookup w4 ''channel'')"
    and k5: "\<And>k'. k' \<noteq> ''winlog'' \<Longrightarrow> fmlookup s5 k' = fmlookup s4 k'"
    by (rule fix_channel_W [OF W4]) (rule that; assumption)
  obtain s6 w6 where m6: "move_if_present ''event_id'' ''event_id'' s5 = Inr s6"
    and W6: "fmlookup s6 ''winlog'' = Some (JObj w6)"
    and f6: "\<And>f. f \<noteq> ''event_id'' \<Longrightarrow> fmlookup w6 f = fmlookup w5 f"
    and d6: "fmlookup w6 ''event_id'' =
        (case fmlookup s5 ''event_id'' of None \<Rightarrow> fmlookup w5 ''event_id'' | Some v \<Rightarrow> Some v)"
    and r6: "fmlookup s6 ''event_id'' = None"
    and k6: "\<And>k'. k' \<noteq> ''event_id'' \<Longrightarrow> k' \<noteq> ''winlog'' \<Longrightarrow> fmlookup s6 k' = fmlookup s5 k'"
    by (rule move_if_present_W [OF W5, of "''event_id''" "''event_id''"], simp) (rule that; assumption)
  from N have "ebind (set_event_code s6) (\<lambda>s. Inr (JObj s)) = Inr out"
    by (simp add: normalize_def rel m5 m6)
  then obtain s7 where m7: "set_event_code s6 = Inr s7" and out: "out = JObj s7"
    by (auto simp: ebind_eq_Inr)
  from m7 obtain eid e0 where e6: "fmlookup w6 ''event_id'' = Some eid"
    and s7: "s7 = fmupd ''event'' (JObj (fmupd ''code'' eid e0)) s6"
    by (auto simp: set_event_code_dict [OF W6] split: option.splits json.splits)
  have top: "\<And>k. k \<noteq> ''event'' \<Longrightarrow> fmlookup s7 k = fmlookup s6 k"
    by (simp add: s7)
  show ?thesis
  proof (rule that [of d s4 w4 s7 w6 eid "fmupd ''code'' eid e0"])
    show "r = JObj d" by (rule r)
    show "relocate L r = Inr s4" by (rule rel)
    show "fmlookup s4 ''winlog'' = Some (JObj w4)" by (rule W4)
    show "out = JObj s7" by (rule out)
    show "fmlookup s7 ''winlog'' = Some (JObj w6)" by (simp add: top W6)
    show "fmlookup s7 ''log'' = Some (log_label L)" by (simp add: top k6 k5 k4 k3 l2)
    show "fmlookup w6 ''event_id'' = Some eid" by (rule e6)
    show "fmlookup s7 ''event'' = Some (JObj (fmupd ''code'' eid e0))" by (simp add: s7)
    show "fmlookup (fmupd ''code'' eid e0) ''code'' = Some eid" by simp
    show "fmlookup w6 ''channel'' =
       (if fmlookup w4 ''channel'' = Some (JStr ''security'') then Some (JStr ''Security'')
        else fmlookup w4 ''channel'')"
      by (simp add: f6 c5)
    show "fmlookup s7 ''EventID'' = None" by (simp add: top k6 k5 k4 k3 E2)
    show "fmlookup s7 ''event_data'' = None" by (simp add: top k6 k5 k4 r3)
    show "fmlookup s7 ''log_name'' = None" by (simp add: top k6 k5 r4)
    show "fmlookup s7 ''event_id'' = None" by (simp add: top r6)
    show "eid = a \<and> fmlookup w6 ''event_data'' = Some ?ED" if a: "fmlookup d ''EventID'' = Some a" for a
    proof
      from nx [OF a] have z: "fmlookup s2 ''event_data'' = None" "fmlookup s2 ''event_id'' = None"
        "fmlookup w2 ''event_id'' = Some a" "fmlookup w2 ''event_data'' = Some ?ED"
        by simp_all
      have "fmlookup s5 ''event_id'' = None" by (simp add: k5 k4 k3 z)
      then have "fmlookup w6 ''event_id'' = Some a"
        by (simp add: d6 f5 f4 f3 z)
      with e6 show "eid = a" by simp
      show "fmlookup w6 ''event_data'' = Some ?ED"
        by (simp add: f6 f5 f4 d3 z)
    qed
  qed
qed

section \<open>Evaluating the rules on the example records\<close>

lemma normalize_raw_nxlog: "normalize L raw_nxlog = Inr (canonical_nxlog L)"
proof -
  let ?lab = "log_label L :: int json"
  let ?d = "fmupd ''EventID'' (JNum 7) (fmupd ''Foo'' (JStr ''bar'')
     (fmupd ''Hostname'' (JStr ''H1'') (fmupd ''Channel'' (JStr ''Security'')
     (fmupd ''@timestamp'' (JStr ''t'') fmempty)))) :: int dict"
  let ?s1 = "fmupd ''winlog'' (JObj fmempty) (fmupd ''log'' ?lab ?d)"
  have i: "init_source L raw_nxlog = Inr ?s1"
    by (simp add: raw_nxlog_def init_source_def setdefault_def)
  have w1: "fmlookup ?s1 ''winlog'' = Some (JObj fmempty)" by simp
  have e1: "fmlookup ?s1 ''EventID'' = Some (JNum 7)" by simp
  let ?w = "fmupd ''channel'' (JStr ''Security'') (fmupd ''computer_name'' (JStr ''H1'')
      (fmupd ''event_data'' (JObj (fmupd ''Foo'' (JStr ''bar'') fmempty))
      (fmupd ''event_id'' (JNum 7) fmempty)))"
  let ?s2 = "fmupd ''winlog'' (JObj ?w) (fmupd ''log'' ?lab (fmupd ''@timestamp'' (JStr ''t'') fmempty))"
  have n: "move_nxlog ?s1 = Inr ?s2"
    by (simp add: move_nxlog_dict [OF w1 e1] Let_def event_data_of_def reserved_iff fmdrop_fmupd
        cong del: fmfilter_cong)
  have w2: "fmlookup ?s2 ''winlog'' = Some (JObj ?w)" by simp
  have r: "relocate L raw_nxlog = Inr ?s2"
    by (simp add: relocate_def i n move_if_present_dict [OF w2])
  have f: "fix_channel ?s2 = Inr ?s2"
    by (simp add: fix_channel_dict [OF w2])
  have m: "move_if_present ''event_id'' ''event_id'' ?s2 = Inr ?s2"
    by (simp add: move_if_present_dict [OF w2])
  let ?s3 = "fmupd ''event'' (JObj (fmupd ''code'' (JNum 7) fmempty)) ?s2"
  have c: "set_event_code ?s2 = Inr ?s3"
    by (simp add: set_event_code_dict [OF w2])
  have "normalize L raw_nxlog = Inr (JObj ?s3)"
    by (simp add: normalize_def r f m c)
  also have "JObj ?s3 = canonical_nxlog L"
    unfolding canonical_nxlog_def log_label_def json.inject
  proof (intro fmap_ext)
    fix x
    show "fmlookup (fmupd ''event'' (JObj (fmupd ''code'' (JNum 7) fmempty))
        (fmupd ''winlog'' (JObj ?w)
          (fmupd ''log'' (JObj (fmupd ''file'' (JObj (fmupd ''name'' (JStr L) fmempty)) fmempty))
            (fmupd ''@timestamp'' (JStr ''t'') fmempty)))) x
      = fmlookup (fmupd ''winlog'' (JObj (fmupd ''event_id'' (JNum 7)
         (fmupd ''event_data'' (JObj (fmupd ''Foo'' (JStr ''bar'') fmempty))
         (fmupd ''computer_name'' (JStr ''H1'')
         (fmupd ''channel'' (JStr ''Security'') fmempty)))))
     (fmupd ''event'' (JObj (fmupd ''code'' (JNum 7) fmempty))
     (fmupd ''@timestamp'' (JStr ''t'')
     (fmupd ''log'' (JObj (fmupd ''file'' (JObj (fmupd ''name'' (JStr L) fmempty)) fmempty))
      fmempty)))) x"
    proof -
      have ww: "?w = fmupd ''event_id'' (JNum 7)
         (fmupd ''event_data'' (JObj (fmupd ''Foo'' (JStr ''bar'') fmempty))
         (fmupd ''computer_name'' (JStr ''H1'')
         (fmupd ''channel'' (JStr ''Security'') fmempty)))"
        by (intro fmap_ext) auto
      show ?thesis
        unfolding ww by auto
    qed
  qed
  finally show ?thesis .
qed

section \<open>Field relocation on the nxlog example\<close>

text \<open>
  Claim C5. Normalising the record
  \<^verbatim>\<open>{"EventID": 7, "Foo": "bar", "Hostname": "H1", "Channel": "Security", "@timestamp": "t"}\<close>
  with any label \<open>L\<close> succeeds and yields exactly the record with
  \<^verbatim>\<open>winlog = {event_id: 7, event_data: {Foo: bar}, computer_name: H1, channel: Security}\<close>,
  \<^verbatim>\<open>event = {code: 7}\<close>, the untouched \<^verbatim>\<open>@timestamp\<close> and \<^verbatim>\<open>log = {file: {name: L}}\<close>.
\<close>

theorem relocation_example: "normalize L raw_nxlog = Inr (canonical_nxlog L)"
  by (rule normalize_raw_nxlog)

section \<open>Records that are always normalised\<close>

lemma nested_simp:
  "fmlookup s a = Some (JObj w) \<Longrightarrow> nested s a b = fmlookup w b"
  by (simp add: nested_def)

text \<open>An nxlog record whose \<^verbatim>\<open>winlog\<close> is absent or a dictionary is always normalised.\<close>

lemma normalize_nxlog_succeeds:
  assumes E: "fmlookup d ''EventID'' = Some a"
    and wl: "fmlookup d ''winlog'' = None \<or> (\<exists>w. fmlookup d ''winlog'' = Some (JObj w))"
  shows "\<exists>out. normalize L (JObj d) = Inr out"
proof -
  obtain s1 v where i: "init_source L (JObj d) = Inr s1"
    and v1: "fmlookup s1 ''winlog'' = Some v"
    and vd: "v = (case fmlookup d ''winlog'' of None \<Rightarrow> JObj fmempty | Some x \<Rightarrow> x)"
    and l1: "fmlookup s1 ''log'' = Some (log_label L)"
    and k1: "\<And>k. k \<noteq> ''winlog'' \<Longrightarrow> k \<noteq> ''log'' \<Longrightarrow> fmlookup s1 k = fmlookup d k"
    by (rule init_source_W [of L d]) (rule that; assumption)
  from wl vd obtain w1 where "v = JObj w1" by (auto split: option.splits)
  with v1 have W1: "fmlookup s1 ''winlog'' = Some (JObj w1)" by simp
  from E have E1: "fmlookup s1 ''EventID'' = Some a" by (simp add: k1)
  obtain s2 w2 where m2: "move_nxlog s1 = Inr s2"
    and W2: "fmlookup s2 ''winlog'' = Some (JObj w2)"
    and e2: "fmlookup w2 ''event_id'' = Some a"
    and k2: "\<And>k'. k' \<noteq> ''winlog'' \<Longrightarrow>
       fmlookup s2 k' =
         (if k' = ''log'' \<or> k' = ''@timestamp'' \<or> k' = ''@version'' then fmlookup s1 k' else None)"
    by (rule move_nxlog_W [OF W1 E1]) (rule that; assumption)
  obtain s3 w3 where m3: "move_if_present ''event_data'' ''event_data'' s2 = Inr s3"
    and W3: "fmlookup s3 ''winlog'' = Some (JObj w3)"
    and f3: "\<And>f. f \<noteq> ''event_data'' \<Longrightarrow> fmlookup w3 f = fmlookup w2 f"
    and k3: "\<And>k'. k' \<noteq> ''event_data'' \<Longrightarrow> k' \<noteq> ''winlog'' \<Longrightarrow> fmlookup s3 k' = fmlookup s2 k'"
    by (rule move_if_present_W [OF W2, of "''event_data''" "''event_data''"], simp) (rule that; assumption)
  obtain s4 w4 where m4: "move_if_present ''log_name'' ''channel'' s3 = Inr s4"
    and W4: "fmlookup s4 ''winlog'' = Some (JObj w4)"
    and f4: "\<And>f. f \<noteq> ''channel'' \<Longrightarrow> fmlookup w4 f = fmlookup w3 f"
    and k4: "\<And>k'. k' \<noteq> ''log_name'' \<Longrightarrow> k' \<noteq> ''winlog'' \<Longrightarrow> fmlookup s4 k' = fmlookup s3 k'"
    by (rule move_if_present_W [OF W3, of "''log_name''" "''channel''"], simp) (rule that; assumption)
  obtain s5 w5 where m5: "fix_channel s4 = Inr s5"
    and W5: "fmlookup s5 ''winlog'' = Some (JObj w5)"
    and f5: "\<And>f. f \<noteq> ''channel'' \<Longrightarrow> fmlookup w5 f = fmlookup w4 f"
    and k5: "\<And>k'. k' \<noteq> ''winlog'' \<Longrightarrow> fmlookup s5 k' = fmlookup s4 k'"
    by (rule fix_channel_W [OF W4]) (rule that; assumption)
  obtain s6 w6 where m6: "move_if_present ''event_id'' ''event_id'' s5 = Inr s6"
    and W6: "fmlookup s6 ''winlog'' = Some (JObj w6)"
    and d6: "fmlookup w6 ''event_id'' =
        (case fmlookup s5 ''event_id'' of None \<Rightarrow> fmlookup w5 ''event_id'' | Some v \<Rightarrow> Some v)"
    and k6: "\<And>k'. k' \<noteq> ''event_id'' \<Longrightarrow> k' \<noteq> ''winlog'' \<Longrightarrow> fmlookup s6 k' = fmlookup s5 k'"
    by (rule move_if_present_W [OF W5, of "''event_id''" "''event_id''"], simp) (rule that; assumption)
  have "fmlookup s5 ''event_id'' = None" by (simp add: k5 k4 k3 k2)
  then have e6: "fmlookup w6 ''event_id'' = Some a" by (simp add: d6 f5 f4 f3 e2)
  have ev: "fmlookup s6 ''event'' = None" by (simp add: k6 k5 k4 k3 k2)
  have "set_event_code s6 = Inr (fmupd ''event'' (JObj (fmupd ''code'' a fmempty)) s6)"
    by (simp add: set_event_code_dict [OF W6] e6 ev)
  then show ?thesis
    by (simp add: normalize_def relocate_def i m2 m3 m4 m5 m6)
qed

lemma nxlog_event_id:
  assumes E: "fmlookup d ''EventID'' = Some a"
    and wl: "fmlookup d ''winlog'' = None \<or> (\<exists>w. fmlookup d ''winlog'' = Some (JObj w))"
  shows "\<exists>s ed. normalize L (JObj d) = Inr (JObj s) \<and>
           nested s ''winlog'' ''event_id'' = Some a \<and>
           nested s ''event'' ''code'' = Some a \<and>
           nested s ''winlog'' ''event_data'' = Some (JObj ed) \<and>
           fmlookup ed ''event_id'' = fmlookup d ''event_id''"
proof -
  from normalize_nxlog_succeeds [OF E wl] obtain out where N: "normalize L (JObj d) = Inr out"
    by blast
  from N obtain d' s7 w7 eid e where
    r: "JObj d = JObj d'" and out: "out = JObj s7"
    and W7: "fmlookup s7 ''winlog'' = Some (JObj w7)"
    and e7: "fmlookup w7 ''event_id'' = Some eid"
    and ev: "fmlookup s7 ''event'' = Some (JObj e)"
    and co: "fmlookup e ''code'' = Some eid"
    and nx: "\<And>a. fmlookup d' ''EventID'' = Some a \<Longrightarrow>
       eid = a \<and>
       fmlookup w7 ''event_data'' =
         Some (JObj (event_data_of (fmdrop ''host'' (fmdrop ''type'' (fmdrop ''EventID'' d')))))"
    by (rule normalize_shape) (rule that; assumption)
  from r have dd: "d' = d" by simp
  from nx [of a] E dd have ea: "eid = a"
    and ed: "fmlookup w7 ''event_data'' =
         Some (JObj (event_data_of (fmdrop ''host'' (fmdrop ''type'' (fmdrop ''EventID'' d)))))"
    by simp_all
  have "fmlookup (event_data_of (fmdrop ''host'' (fmdrop ''type'' (fmdrop ''EventID'' d)))) ''event_id''
      = fmlookup d ''event_id''"
    by (simp add: event_data_of_lookup reserved_iff)
  with N out W7 e7 ev co ea ed show ?thesis
    by (simp add: nested_simp)
qed

section \<open>Which event id wins\<close>

text \<open>
  Claim C1, as amended. The spec expects that a record with both the nxlog key
  \<^verbatim>\<open>EventID = 42\<close> and the top-level key \<^verbatim>\<open>event_id = 99\<close> ends with
  \<^verbatim>\<open>winlog.event_id = 99\<close>. In the code the nxlog branch moves every top-level key outside the
  reserved set, \<^verbatim>\<open>event_id\<close> included, into \<^verbatim>\<open>winlog.event_data\<close>, so the later rule for a
  top-level \<^verbatim>\<open>event_id\<close> finds nothing. What holds: for every record with \<^verbatim>\<open>EventID = a\<close> and
  top-level \<^verbatim>\<open>event_id = b\<close> whose \<^verbatim>\<open>winlog\<close> is absent or a dictionary, the normalisation
  succeeds with \<^verbatim>\<open>winlog.event_id = a\<close>, \<^verbatim>\<open>event.code = a\<close> and
  \<^verbatim>\<open>winlog.event_data.event_id = b\<close>.
\<close>

theorem event_id_precedence_amended:
  assumes "fmlookup d ''EventID'' = Some a" and "fmlookup d ''event_id'' = Some b"
    and "fmlookup d ''winlog'' = None \<or> (\<exists>w. fmlookup d ''winlog'' = Some (JObj w))"
  shows "\<exists>s ed. normalize L (JObj d) = Inr (JObj s) \<and>
           nested s ''winlog'' ''event_id'' = Some a \<and>
           nested s ''event'' ''code'' = Some a \<and>
           nested s ''winlog'' ''event_data'' = Some (JObj ed) \<and>
           fmlookup ed ''event_id'' = Some b"
  using nxlog_event_id [OF assms(1) assms(3), of L] assms(2) by simp

theorem event_id_precedence_amended_witness:
  "\<exists>s ed. normalize ''a.tar.gz/m.json'' raw_both = Inr (JObj s) \<and>
           nested s ''winlog'' ''event_id'' = Some (JNum 42) \<and>
           nested s ''event'' ''code'' = Some (JNum 42) \<and>
           nested s ''winlog'' ''event_data'' = Some (JObj ed) \<and>
           fmlookup ed ''event_id'' = Some (JNum 99)"
  unfolding raw_both_def
  by (rule event_id_precedence_amended) simp_all

theorem event_id_precedence_counterexample:
  "normalized_field (normalize ''a.tar.gz/m.json'' raw_both) ''winlog'' ''event_id'' = Some (JNum 42)
   \<and> normalized_field (normalize ''a.tar.gz/m.json'' raw_both) ''winlog'' ''event_id'' \<noteq> Some (JNum 99)
   \<and> normalized_field (normalize ''a.tar.gz/m.json'' raw_both) ''event'' ''code'' \<noteq> Some (JNum 99)"
proof -
  have "\<exists>s ed. normalize ''a.tar.gz/m.json'' raw_both = Inr (JObj s) \<and>
           nested s ''winlog'' ''event_id'' = Some (JNum 42) \<and>
           nested s ''event'' ''code'' = Some (JNum 42) \<and>
           nested s ''winlog'' ''event_data'' = Some (JObj ed) \<and>
           fmlookup ed ''event_id'' = fmlookup (fmupd ''EventID'' (JNum 42) (fmupd ''event_id'' (JNum 99) fmempty)) ''event_id''"
    unfolding raw_both_def by (rule nxlog_event_id) simp_all
  then obtain s where "normalize ''a.tar.gz/m.json'' raw_both = Inr (JObj s)"
    and "nested s ''winlog'' ''event_id'' = Some (JNum 42)"
    and "nested s ''event'' ''code'' = Some (JNum 42)"
    by blast
  then show ?thesis
    by (simp add: normalized_field_def)
qed

section \<open>The invariant of a normalised record\<close>

text \<open>
  Claim C4. Whenever the normalisation of a record with label \<open>L\<close> succeeds, the result is
  an object in which \<^verbatim>\<open>event.code\<close> and \<^verbatim>\<open>winlog.event_id\<close> are both present and equal, and
  in which \<^verbatim>\<open>log.file\<close> is \<^verbatim>\<open>{name: L}\<close>.
\<close>

theorem canonical_invariant:
  assumes "normalize L r = Inr out"
  shows "\<exists>s eid. out = JObj s \<and>
           nested s ''event'' ''code'' = Some eid \<and>
           nested s ''winlog'' ''event_id'' = Some eid \<and>
           nested s ''log'' ''file'' = Some (JObj (fmupd ''name'' (JStr L) fmempty))"
proof -
  from assms obtain s7 w7 eid e where out: "out = JObj s7"
    and W7: "fmlookup s7 ''winlog'' = Some (JObj w7)"
    and l7: "fmlookup s7 ''log'' = Some (log_label L)"
    and e7: "fmlookup w7 ''event_id'' = Some eid"
    and ev: "fmlookup s7 ''event'' = Some (JObj e)"
    and co: "fmlookup e ''code'' = Some eid"
    by (rule normalize_shape) (rule that; assumption)
  have "nested s7 ''log'' ''file'' = Some (JObj (fmupd ''name'' (JStr L) fmempty))"
    using l7 by (simp add: nested_def log_label_def)
  with out W7 e7 ev co show ?thesis
    by (simp add: nested_simp)
qed

theorem canonical_invariant_witness:
  "normalize ''a.tar.gz/m.json'' raw_nxlog = Inr (canonical_nxlog ''a.tar.gz/m.json'') \<and>
   (\<exists>s eid. canonical_nxlog ''a.tar.gz/m.json'' = JObj s \<and>
           nested s ''event'' ''code'' = Some eid \<and>
           nested s ''winlog'' ''event_id'' = Some eid \<and>
           nested s ''log'' ''file'' = Some (JObj (fmupd ''name'' (JStr ''a.tar.gz/m.json'') fmempty)))"
  using canonical_invariant [OF normalize_raw_nxlog [of "''a.tar.gz/m.json''"]]
    normalize_raw_nxlog [of "''a.tar.gz/m.json''"]
  by simp

section \<open>The \<^verbatim>\<open>log\<close> field\<close>

text \<open>
  Claim C10. Whenever the normalisation of a record \<open>d\<close> with label \<open>L\<close> succeeds, the
  top-level \<^verbatim>\<open>log\<close> of the result is exactly \<^verbatim>\<open>{file: {name: L}}\<close>, whatever \<open>d\<close> held under
  \<^verbatim>\<open>log\<close>; and when \<open>d\<close> is an nxlog record (it has \<^verbatim>\<open>EventID\<close>), the dictionary
  \<^verbatim>\<open>winlog.event_data\<close> built from the top-level keys has no key \<^verbatim>\<open>log\<close>.
\<close>

theorem log_overwritten:
  assumes "normalize L (JObj d) = Inr out"
  shows "\<exists>s. out = JObj s \<and>
           fmlookup s ''log'' =
             Some (JObj (fmupd ''file'' (JObj (fmupd ''name'' (JStr L) fmempty)) fmempty)) \<and>
           (\<forall>a. fmlookup d ''EventID'' = Some a \<longrightarrow>
              (\<exists>ed. nested s ''winlog'' ''event_data'' = Some (JObj ed) \<and>
                    fmlookup ed ''log'' = None))"
proof -
  from assms obtain d' s7 w7 eid where r: "JObj d = JObj d'" and out: "out = JObj s7"
    and W7: "fmlookup s7 ''winlog'' = Some (JObj w7)"
    and l7: "fmlookup s7 ''log'' = Some (log_label L)"
    and e7: "fmlookup w7 ''event_id'' = Some eid"
    and nx: "\<And>a. fmlookup d' ''EventID'' = Some a \<Longrightarrow>
       eid = a \<and>
       fmlookup w7 ''event_data'' =
         Some (JObj (event_data_of (fmdrop ''host'' (fmdrop ''type'' (fmdrop ''EventID'' d')))))"
    by (rule normalize_shape) (rule that; assumption)
  from r have dd: "d' = d" by simp
  have nolog: "fmlookup (event_data_of x) ''log'' = None" for x :: "'a dict"
    by (simp add: event_data_of_lookup reserved_iff)
  have "\<exists>ed. nested s7 ''winlog'' ''event_data'' = Some (JObj ed) \<and> fmlookup ed ''log'' = None"
    if "fmlookup d ''EventID'' = Some a" for a
    using nx [of a] that dd W7 nolog by (simp add: nested_simp)
  with out l7 show ?thesis
    unfolding log_label_def by blast
qed

theorem log_overwritten_witness:
  "\<exists>out. normalize ''a.tar.gz/m.json'' (JObj raw_with_log) = Inr out \<and>
     (\<exists>s. out = JObj s \<and>
           fmlookup s ''log'' =
             Some (JObj (fmupd ''file'' (JObj (fmupd ''name'' (JStr ''a.tar.gz/m.json'') fmempty)) fmempty)) \<and>
           (\<exists>ed. nested s ''winlog'' ''event_data'' = Some (JObj ed) \<and>
                    fmlookup ed ''log'' = None))"
proof -
  have E: "fmlookup raw_with_log ''EventID'' = Some (JNum 7)"
    by (simp add: raw_with_log_def)
  have "fmlookup raw_with_log ''winlog'' = None \<or>
      (\<exists>w. fmlookup raw_with_log ''winlog'' = Some (JObj w))"
    by (simp add: raw_with_log_def)
  from normalize_nxlog_succeeds [OF E this]
  obtain out where N: "normalize ''a.tar.gz/m.json'' (JObj raw_with_log) = Inr out"
    by blast
  from log_overwritten [OF N] E N show ?thesis
    by blast
qed

section \<open>Idempotence\<close>

text \<open>
  Claim C3. Whenever the normalisation of a record with label \<open>L\<close> succeeds with result
  \<open>out\<close>, normalising \<open>out\<close> again with the same label succeeds and returns \<open>out\<close>
  unchanged.
\<close>

theorem normalize_idempotent:
  assumes "normalize L r = Inr out"
  shows "normalize L out = Inr out"
proof -
  from assms obtain s4 w4 s7 w7 eid e where out: "out = JObj s7"
    and W4: "fmlookup s4 ''winlog'' = Some (JObj w4)"
    and W7: "fmlookup s7 ''winlog'' = Some (JObj w7)"
    and l7: "fmlookup s7 ''log'' = Some (log_label L)"
    and e7: "fmlookup w7 ''event_id'' = Some eid"
    and ev: "fmlookup s7 ''event'' = Some (JObj e)"
    and co: "fmlookup e ''code'' = Some eid"
    and c7: "fmlookup w7 ''channel'' =
       (if fmlookup w4 ''channel'' = Some (JStr ''security'') then Some (JStr ''Security'')
        else fmlookup w4 ''channel'')"
    and a1: "fmlookup s7 ''EventID'' = None"
    and a2: "fmlookup s7 ''event_data'' = None"
    and a3: "fmlookup s7 ''log_name'' = None"
    and a4: "fmlookup s7 ''event_id'' = None"
    by (rule normalize_shape) (rule that; assumption)
  have i: "init_source L (JObj s7) = Inr s7"
    using W7 by (simp add: init_source_obj fmupd_same [OF l7])
  have n: "move_nxlog s7 = Inr s7"
    by (rule move_nxlog_absent [OF a1])
  have m1: "move_if_present ''event_data'' ''event_data'' s7 = Inr s7"
    by (simp add: move_if_present_dict [OF W7] a2)
  have m2: "move_if_present ''log_name'' ''channel'' s7 = Inr s7"
    by (simp add: move_if_present_dict [OF W7] a3)
  have "fmlookup w7 ''channel'' \<noteq> Some (JStr ''security'')"
    by (simp add: c7)
  then have f: "fix_channel s7 = Inr s7"
    by (simp add: fix_channel_dict [OF W7])
  have m3: "move_if_present ''event_id'' ''event_id'' s7 = Inr s7"
    by (simp add: move_if_present_dict [OF W7] a4)
  have "fmupd ''event'' (JObj (fmupd ''code'' eid e)) s7 = s7"
    by (simp add: fmupd_same [OF co] fmupd_same [OF ev])
  then have c: "set_event_code s7 = Inr s7"
    by (simp add: set_event_code_dict [OF W7] e7 ev)
  show ?thesis
    by (simp add: out normalize_def relocate_def i n m1 m2 f m3 c)
qed

theorem normalize_idempotent_witness:
  "normalize ''a.tar.gz/m.json'' raw_nxlog = Inr (canonical_nxlog ''a.tar.gz/m.json'') \<and>
   normalize ''a.tar.gz/m.json'' (canonical_nxlog ''a.tar.gz/m.json'')
     = Inr (canonical_nxlog ''a.tar.gz/m.json'')"
  using normalize_idempotent [OF normalize_raw_nxlog [of "''a.tar.gz/m.json''"]]
    normalize_raw_nxlog [of "''a.tar.gz/m.json''"]
  by simp

section \<open>A record without any event id\<close>

text \<open>
  C7 (missing event-id failure). A raw record with no top-level \<open>EventID\<close>, no top-level
  \<open>event_id\<close>, and a \<open>winlog\<close> that is absent or is a mapping without
  \<open>event_id\<close>: every step before line 152 succeeds, and the step that sets
  \<open>event.code\<close> raises \<open>KeyError ''event_id''\<close>, which is the result of the
  whole normalisation. No default value is produced.
\<close>

theorem missing_event_id_fails:
  assumes E: "fmlookup d ''EventID'' = None" and I: "fmlookup d ''event_id'' = None"
    and wl: "fmlookup d ''winlog'' = None \<or>
      (\<exists>w. fmlookup d ''winlog'' = Some (JObj w) \<and> fmlookup w ''event_id'' = None)"
  shows "\<exists>s. ebind (relocate L (JObj d))
               (\<lambda>s. ebind (fix_channel s) (move_if_present ''event_id'' ''event_id'')) = Inr s \<and>
             set_event_code s = Inl (KeyError ''event_id'') \<and>
             normalize L (JObj d) = Inl (KeyError ''event_id'')"
proof -
  obtain s1 v where i: "init_source L (JObj d) = Inr s1"
    and v1: "fmlookup s1 ''winlog'' = Some v"
    and vd: "v = (case fmlookup d ''winlog'' of None \<Rightarrow> JObj fmempty | Some x \<Rightarrow> x)"
    and k1: "\<And>k. k \<noteq> ''winlog'' \<Longrightarrow> k \<noteq> ''log'' \<Longrightarrow> fmlookup s1 k = fmlookup d k"
    by (rule init_source_W [of L d]) (rule that; assumption)
  from wl vd obtain w1 where "v = JObj w1" and e1: "fmlookup w1 ''event_id'' = None"
    by (auto split: option.splits)
  with v1 have W1: "fmlookup s1 ''winlog'' = Some (JObj w1)" by simp
  from E have "fmlookup s1 ''EventID'' = None" by (simp add: k1)
  then have m2: "move_nxlog s1 = Inr s1" by (rule move_nxlog_absent)
  obtain s3 w3 where m3: "move_if_present ''event_data'' ''event_data'' s1 = Inr s3"
    and W3: "fmlookup s3 ''winlog'' = Some (JObj w3)"
    and f3: "\<And>f. f \<noteq> ''event_data'' \<Longrightarrow> fmlookup w3 f = fmlookup w1 f"
    and k3: "\<And>k'. k' \<noteq> ''event_data'' \<Longrightarrow> k' \<noteq> ''winlog'' \<Longrightarrow> fmlookup s3 k' = fmlookup s1 k'"
    by (rule move_if_present_W [OF W1, of "''event_data''" "''event_data''"], simp) (rule that; assumption)
  obtain s4 w4 where m4: "move_if_present ''log_name'' ''channel'' s3 = Inr s4"
    and W4: "fmlookup s4 ''winlog'' = Some (JObj w4)"
    and f4: "\<And>f. f \<noteq> ''channel'' \<Longrightarrow> fmlookup w4 f = fmlookup w3 f"
    and k4: "\<And>k'. k' \<noteq> ''log_name'' \<Longrightarrow> k' \<noteq> ''winlog'' \<Longrightarrow> fmlookup s4 k' = fmlookup s3 k'"
    by (rule move_if_present_W [OF W3, of "''log_name''" "''channel''"], simp) (rule that; assumption)
  obtain s5 w5 where m5: "fix_channel s4 = Inr s5"
    and W5: "fmlookup s5 ''winlog'' = Some (JObj w5)"
    and f5: "\<And>f. f \<noteq> ''channel'' \<Longrightarrow> fmlookup w5 f = fmlookup w4 f"
    and k5: "\<And>k'. k' \<noteq> ''winlog'' \<Longrightarrow> fmlookup s5 k' = fmlookup s4 k'"
    by (rule fix_channel_W [OF W4]) (rule that; assumption)
  have t5: "fmlookup s5 ''event_id'' = None" by (simp add: k5 k4 k3 k1 I)
  then have m6: "move_if_present ''event_id'' ''event_id'' s5 = Inr s5"
    by (simp add: move_if_present_dict [OF W5])
  have "fmlookup w5 ''event_id'' = None" by (simp add: f5 f4 f3 e1)
  then have c: "set_event_code s5 = Inl (KeyError ''event_id'')"
    by (simp add: set_event_code_dict [OF W5])
  have rel: "relocate L (JObj d) = Inr s4"
    by (simp add: relocate_def i m2 m3 m4)
  show ?thesis
    by (rule exI [of _ s5]) (simp add: normalize_def rel m5 m6 c)
qed

theorem missing_event_id_fails_witness:
  "\<exists>s. ebind (relocate ''a.tar.gz/m.json'' (JObj raw_no_id))
               (\<lambda>s. ebind (fix_channel s) (move_if_present ''event_id'' ''event_id'')) = Inr s \<and>
             set_event_code s = Inl (KeyError ''event_id'') \<and>
             normalize ''a.tar.gz/m.json'' (JObj raw_no_id) = Inl (KeyError ''event_id'')"
  by (rule missing_event_id_fails) (simp_all add: raw_no_id_def)

section \<open>The channel name\<close>

text \<open>
  C6 (channel case normalisation). Let \<open>s\<close> be the record after the relocation rules
  (lines 90 to 140) and \<open>w\<close> its \<open>winlog\<close> mapping. The rule of lines 142 to 146
  always succeeds on \<open>s\<close>, and afterwards \<open>winlog.channel\<close> is
  \<open>Security\<close> if it was the lowercase literal \<open>security\<close>, and is exactly what it
  was in \<open>w\<close> (present or absent) for any other value. The same holds for
  \<open>winlog.channel\<close> in the final result whenever normalisation succeeds.
\<close>

theorem channel_normalization:
  assumes rel: "relocate L r = Inr s" and W: "fmlookup s ''winlog'' = Some (JObj w)"
  shows "(\<exists>s'. fix_channel s = Inr s' \<and>
            nested s' ''winlog'' ''channel'' =
              (if fmlookup w ''channel'' = Some (JStr ''security'') then Some (JStr ''Security'')
               else fmlookup w ''channel'')) \<and>
         (\<forall>out. normalize L r = Inr (JObj out) \<longrightarrow>
            nested out ''winlog'' ''channel'' =
              (if fmlookup w ''channel'' = Some (JStr ''security'') then Some (JStr ''Security'')
               else fmlookup w ''channel''))"
proof (intro conjI allI impI)
  obtain s5 w5 where m5: "fix_channel s = Inr s5"
    and W5: "fmlookup s5 ''winlog'' = Some (JObj w5)"
    and c5: "fmlookup w5 ''channel'' =
       (if fmlookup w ''channel'' = Some (JStr ''security'') then Some (JStr ''Security'')
        else fmlookup w ''channel'')"
    by (rule fix_channel_W [OF W]) (rule that; assumption)
  then show "\<exists>s'. fix_channel s = Inr s' \<and>
            nested s' ''winlog'' ''channel'' =
              (if fmlookup w ''channel'' = Some (JStr ''security'') then Some (JStr ''Security'')
               else fmlookup w ''channel'')"
    by (simp add: nested_simp)
next
  fix out
  assume N: "normalize L r = Inr (JObj out)"
  from N obtain s4 w4 s7 w7 where r4: "relocate L r = Inr s4"
    and W4: "fmlookup s4 ''winlog'' = Some (JObj w4)"
    and out: "JObj out = JObj s7"
    and W7: "fmlookup s7 ''winlog'' = Some (JObj w7)"
    and c7: "fmlookup w7 ''channel'' =
       (if fmlookup w4 ''channel'' = Some (JStr ''security'') then Some (JStr ''Security'')
        else fmlookup w4 ''channel'')"
    by (rule normalize_shape) (rule that; assumption)
  from rel r4 have "s4 = s" by simp
  with W W4 have "w4 = w" by simp
  with out W7 c7 show "nested out ''winlog'' ''channel'' =
              (if fmlookup w ''channel'' = Some (JStr ''security'') then Some (JStr ''Security'')
               else fmlookup w ''channel'')"
    by (simp add: nested_simp)
qed

lemma relocate_raw_winlogbeat:
  "relocate L (JObj raw_winlogbeat) = Inr (relocated_winlogbeat L)"
proof -
  let ?s1 = "fmupd ''winlog'' (JObj fmempty) (fmupd ''log'' (log_label L) raw_winlogbeat)"
  have i: "init_source L (JObj raw_winlogbeat) = Inr ?s1"
    by (simp add: init_source_obj raw_winlogbeat_def)
  have W1: "fmlookup ?s1 ''winlog'' = Some (JObj fmempty)" by simp
  have n: "move_nxlog ?s1 = Inr ?s1"
    by (rule move_nxlog_absent) (simp add: raw_winlogbeat_def)
  have l1: "fmlookup ?s1 ''event_data'' = None" by (simp add: raw_winlogbeat_def)
  have l2: "fmlookup ?s1 ''log_name'' = Some (JStr ''security'')" by (simp add: raw_winlogbeat_def)
  have m1: "move_if_present ''event_data'' ''event_data'' ?s1 = Inr ?s1"
    by (simp only: move_if_present_dict [OF W1] l1 option.case)
  have m2: "move_if_present ''log_name'' ''channel'' ?s1 =
      Inr (fmdrop ''log_name'' (fmupd ''winlog'' (JObj (fmupd ''channel'' (JStr ''security'') fmempty)) ?s1))"
    by (simp only: move_if_present_dict [OF W1] l2 option.case)
  have e: "fmdrop ''log_name'' (fmupd ''winlog'' (JObj (fmupd ''channel'' (JStr ''security'') fmempty)) ?s1)
      = relocated_winlogbeat L"
    unfolding relocated_winlogbeat_def raw_winlogbeat_def
    by (intro fmap_ext) auto
  show ?thesis
    by (simp only: relocate_def i n m1 m2 e ebind_Inr)
qed

lemma normalize_raw_winlogbeat:
  "normalized_field (normalize L (JObj raw_winlogbeat)) ''winlog'' ''channel'' = Some (JStr ''Security'')"
proof -
  let ?s4 = "relocated_winlogbeat L"
  let ?w4 = "fmupd ''channel'' (JStr ''security'') fmempty :: int dict"
  let ?w5 = "fmupd ''channel'' (JStr ''Security'') ?w4"
  have W4: "fmlookup ?s4 ''winlog'' = Some (JObj ?w4)"
    by (simp add: relocated_winlogbeat_def)
  let ?s5 = "fmupd ''winlog'' (JObj ?w5) ?s4"
  have f: "fix_channel ?s4 = Inr ?s5"
    by (simp add: fix_channel_dict [OF W4])
  have W5: "fmlookup ?s5 ''winlog'' = Some (JObj ?w5)" by simp
  have i5: "fmlookup ?s5 ''event_id'' = Some (JNum 5)"
    by (simp add: relocated_winlogbeat_def)
  let ?w6 = "fmupd ''event_id'' (JNum 5) ?w5"
  let ?s6 = "fmdrop ''event_id'' (fmupd ''winlog'' (JObj ?w6) ?s5)"
  have m: "move_if_present ''event_id'' ''event_id'' ?s5 = Inr ?s6"
    by (simp only: move_if_present_dict [OF W5] i5 option.case)
  have W6: "fmlookup ?s6 ''winlog'' = Some (JObj ?w6)" by simp
  have ev: "fmlookup ?s6 ''event'' = None"
    by (simp add: relocated_winlogbeat_def)
  let ?s7 = "fmupd ''event'' (JObj (fmupd ''code'' (JNum 5) fmempty)) ?s6"
  have c: "set_event_code ?s6 = Inr ?s7"
    by (simp only: set_event_code_dict [OF W6] ev) simp
  have "normalize L (JObj raw_winlogbeat) = Inr (JObj ?s7)"
    by (simp only: normalize_def relocate_raw_winlogbeat f m c ebind_Inr)
  moreover have "nested ?s7 ''winlog'' ''channel'' = Some (JStr ''Security'')"
    by (simp add: nested_def)
  ultimately show ?thesis
    by (simp only: normalized_field_def sum.case json.case)
qed

theorem channel_normalization_witness:
  "relocate ''a.tar.gz/m.json'' (JObj raw_winlogbeat) = Inr (relocated_winlogbeat ''a.tar.gz/m.json'') \<and>
   fmlookup (relocated_winlogbeat ''a.tar.gz/m.json'') ''winlog'' =
     Some (JObj (fmupd ''channel'' (JStr ''security'') fmempty)) \<and>
   (\<exists>s'. fix_channel (relocated_winlogbeat ''a.tar.gz/m.json'') = Inr s' \<and>
      nested s' ''winlog'' ''channel'' = Some (JStr ''Security'')) \<and>
   normalized_field (normalize ''a.tar.gz/m.json'' (JObj raw_winlogbeat)) ''winlog'' ''channel''
     = Some (JStr ''Security'')"
proof -
  have W: "fmlookup (relocated_winlogbeat ''a.tar.gz/m.json'') ''winlog'' =
     Some (JObj (fmupd ''channel'' (JStr ''security'') fmempty))"
    by (simp add: relocated_winlogbeat_def)
  from channel_normalization [OF relocate_raw_winlogbeat W]
  have "\<exists>s'. fix_channel (relocated_winlogbeat ''a.tar.gz/m.json'') = Inr s' \<and>
      nested s' ''winlog'' ''channel'' = Some (JStr ''Security'')"
    by simp
  with relocate_raw_winlogbeat W normalize_raw_winlogbeat show ?thesis
    by blast
qed

section \<open>Lines and bytes\<close>



lemma file_lines_Nil: "file_lines s = [] \<longleftrightarrow> s = []"
  by (cases s) (auto split: list.splits)



lemma progress_logstash_send [simp]: "progress (logstash_send cfg ev st) = progress st"
  by (simp add: logstash_send_def)


lemma progress_print_summary [simp]: "progress (state_of (print_summary st)) = progress st"
  by (simp add: print_summary_def state_of_def split: option.splits)


section \<open>Byte accounting\<close>







section \<open>The counters of the post loop\<close>

lemma logstash_send_counters:
  "success_count (logstash_send cfg ev st) = success_count st + (if post_status cfg ev = 200 then 1 else 0)"
  "total_success (logstash_send cfg ev st) = total_success st + (if post_status cfg ev = 200 then 1 else 0)"
  "fail_count (logstash_send cfg ev st) = fail_count st + (if post_status cfg ev = 200 then 0 else 1)"
  "total_failed (logstash_send cfg ev st) = total_failed st + (if post_status cfg ev = 200 then 0 else 1)"
  by (simp_all add: logstash_send_def)

lemma logstash_loop_counters:
  "success_count (state_of (logstash_loop cfg lf ls st)) =
     success_count st + length (filter (\<lambda>e. post_status cfg e = 200) (fst (generate_actions cfg lf ls p))) \<and>
   total_success (state_of (logstash_loop cfg lf ls st)) =
     total_success st + length (filter (\<lambda>e. post_status cfg e = 200) (fst (generate_actions cfg lf ls p))) \<and>
   fail_count (state_of (logstash_loop cfg lf ls st)) =
     fail_count st + length (filter (\<lambda>e. post_status cfg e \<noteq> 200) (fst (generate_actions cfg lf ls p))) \<and>
   total_failed (state_of (logstash_loop cfg lf ls st)) =
     total_failed st + length (filter (\<lambda>e. post_status cfg e \<noteq> 200) (fst (generate_actions cfg lf ls p))) \<and>
   isl (logstash_loop cfg lf ls st) = (snd (snd (generate_actions cfg lf ls p)) \<noteq> None)"
proof (induction ls arbitrary: st p)
  case Nil
  show ?case by (simp add: state_of_def)
next
  case (Cons l ls)
  show ?case
  proof (cases "source_of_line cfg lf l")
    case (Inl e)
    then show ?thesis by (simp add: state_of_def)
  next
    case (Inr src)
    let ?st = "logstash_send cfg (action cfg src) (st\<lparr>progress := progress st + length l\<rparr>)"
    note IH = Cons.IH [of ?st "p + length l"]
    obtain acts p' r where g: "generate_actions cfg lf ls (p + length l) = (acts, p', r)"
      by (cases "generate_actions cfg lf ls (p + length l)") auto
    from IH g Inr show ?thesis
      by (simp add: logstash_send_counters)
  qed
qed

text \<open>
  C9 (outcome of a post). One send adds one to the per-member and to the run-wide success
  counter when the status of the response is exactly 200, and one to the per-member and to the
  run-wide failure counter for any other status; it always returns a state. Over the lines of
  a member, the loop posts every event that the generator yields: the success counters grow
  by the number of yielded events answered with 200, the failure counters by the number
  answered with another status, and the loop ends with an exception exactly when the
  generator does, so a failed post never stops the loop.
\<close>

theorem post_sink_outcome:
  "success_count (logstash_send cfg ev st) = success_count st + (if post_status cfg ev = 200 then 1 else 0) \<and>
   total_success (logstash_send cfg ev st) = total_success st + (if post_status cfg ev = 200 then 1 else 0) \<and>
   fail_count (logstash_send cfg ev st) = fail_count st + (if post_status cfg ev = 200 then 0 else 1) \<and>
   total_failed (logstash_send cfg ev st) = total_failed st + (if post_status cfg ev = 200 then 0 else 1) \<and>
   success_count (state_of (logstash_loop cfg lf ls st)) =
     success_count st + length (filter (\<lambda>e. post_status cfg e = 200) (fst (generate_actions cfg lf ls p))) \<and>
   total_success (state_of (logstash_loop cfg lf ls st)) =
     total_success st + length (filter (\<lambda>e. post_status cfg e = 200) (fst (generate_actions cfg lf ls p))) \<and>
   fail_count (state_of (logstash_loop cfg lf ls st)) =
     fail_count st + length (filter (\<lambda>e. post_status cfg e \<noteq> 200) (fst (generate_actions cfg lf ls p))) \<and>
   total_failed (state_of (logstash_loop cfg lf ls st)) =
     total_failed st + length (filter (\<lambda>e. post_status cfg e \<noteq> 200) (fst (generate_actions cfg lf ls p))) \<and>
   isl (logstash_loop cfg lf ls st) = (snd (snd (generate_actions cfg lf ls p)) \<noteq> None)"
  using logstash_send_counters [of cfg ev st] logstash_loop_counters [of cfg lf ls st p]
  by simp

section \<open>A line that does not decode\<close>




lemma printed_logstash_send [simp]: "printed (logstash_send cfg ev st) = printed st"
  by (simp add: logstash_send_def)



















end
